theory Spec2Isabelle
  imports Complex_Main
begin

section \<open>JavaScript values used by the hook\<close>

text \<open>
  The hook \<open>useEthers\<close> (file \<open>src/unnamed/part_000\<close>) is TypeScript over React and
  ethers. Chain ids are JavaScript numbers; the model takes the integer ones, as
  \<open>int\<close>, and \<open>undefined\<close> as \<open>None\<close>. JavaScript holds an integer exactly, and prints
  it digit by digit, while its magnitude is below \<open>2 ^ 53\<close>; the strings the model
  builds from a chain id are those of JavaScript on that range. The argument of
  \<open>switchNetwork\<close> is checked at run time, so it is a value of any JavaScript type; its
  finite numbers are rationals.
\<close>

datatype js_value =
    JSUndefined
  | JSNull
  | JSBoolean bool
  | JSNumber rat
  | JSString string

text \<open>
  An \<open>Error\<close> object: its \<open>name\<close>, its \<open>message\<close> and the numeric \<open>code\<close> a wallet
  attaches to a rejected request (\<open>None\<close> when there is none).
  \<open>ArgumentValidationError\<close> is what the helper \<open>validateArguments\<close> throws.
\<close>

datatype js_error =
    Error (err_name: string) (err_message: string) (err_code: "int option")
  | ArgumentValidationError

subsection \<open>Numbers to strings\<close>

definition digit_char :: "nat \<Rightarrow> char" where
  "digit_char d = ''0123456789abcdefghijklmnopqrstuvwxyz'' ! d"

function nat_toString :: "nat \<Rightarrow> nat \<Rightarrow> string" where
  "nat_toString radix n =
     (if radix < 2 \<or> n < radix then [digit_char n]
      else nat_toString radix (n div radix) @ [digit_char (n mod radix)])"
  by pat_completeness auto
termination
  by (relation "measure snd") auto

declare nat_toString.simps [simp del]

text \<open>
  \<open>Number.prototype.toString(radix)\<close> on an integer: the digits of the magnitude, after
  a minus sign for a negative number.
\<close>

definition Number_toString :: "nat \<Rightarrow> int \<Rightarrow> string" where
  "Number_toString radix i =
     (if i < 0 then CHR ''-'' # nat_toString radix (nat (- i))
      else nat_toString radix (nat i))"

text \<open>A number or \<open>undefined\<close> inside a template literal.\<close>

definition template_number :: "int option \<Rightarrow> string" where
  "template_number v = (case v of None \<Rightarrow> ''undefined'' | Some i \<Rightarrow> Number_toString 10 i)"

text \<open>\<open>Array.prototype.indexOf\<close>: the first index holding the value, or \<open>-1\<close>.\<close>

fun indexOf_from :: "int \<Rightarrow> 'a list \<Rightarrow> 'a \<Rightarrow> int" where
  "indexOf_from i [] x = - 1"
| "indexOf_from i (y # ys) x = (if y = x then i else indexOf_from (i + 1) ys x)"

definition indexOf :: "'a list \<Rightarrow> 'a \<Rightarrow> int" where
  "indexOf xs x = indexOf_from 0 xs x"

section \<open>Configuration, providers and connectors\<close>

record native_currency =
  currency_name :: string
  currency_symbol :: string
  currency_decimals :: nat

text \<open>A configured network (\<open>Chain\<close>): the hook reads \<open>chainId\<close> and \<open>rpcUrl\<close>.\<close>

record chain =
  chain_chainId :: int
  chain_chainName :: string
  chain_rpcUrl :: "string option"
  chain_blockExplorerUrl :: "string option"
  chain_nativeCurrency :: "native_currency option"

text \<open>
  \<open>useConfig()\<close>: \<open>networks\<close> and \<open>readOnlyUrls\<close>, both optional. \<open>readOnlyUrls\<close> is an
  object from chain ids to URLs. JavaScript keeps its keys as strings, and the hook
  reads them only through \<open>parseInt(key, 10)\<close> on line 78. The model holds each key as
  the number \<open>parseInt\<close> reads from it: \<open>None\<close> when that is \<open>NaN\<close> or an infinity, which
  equal no chain id.
\<close>

record config =
  networks :: "chain list option"
  readOnlyUrls :: "(int option \<times> string) list option"

record add_network_params =
  params_chainId :: string
  params_chainName :: string
  params_rpcUrls :: "string list"
  params_blockExplorerUrls :: "string list"
  params_nativeCurrency :: "native_currency option"

datatype rpc_params =
    SwitchChainParams string
  | AddChainParams add_network_params

type_synonym rpc_call = "string \<times> rpc_params"

text \<open>
  A provider. \<open>send\<close> is \<open>None\<close> when the object has no \<open>send\<close> property. A request is
  answered by the wallet, whose state \<open>'w\<close> it may change; a rejected promise is \<open>Inl\<close>
  of the value thrown. Every request is taken to settle.
\<close>

record 'w provider =
  provider_name :: string
  send :: "(string \<Rightarrow> rpc_params \<Rightarrow> 'w \<Rightarrow> (js_error + unit) \<times> 'w) option"

text \<open>The active connector (\<open>ConnectorController\<close>), as far as the hook reads it.\<close>

record 'w connector_controller =
  connector_chainId :: "int option"
  accounts :: "string list"
  getProvider :: "'w provider option"

record 'w readonly_network =
  network_provider :: "'w provider"
  network_chainId :: int

text \<open>What the hooks called by \<open>useEthers\<close> return in one render.\<close>

record 'w hook_env =
  errors :: "js_error list"
  isLoading :: bool
  activeConnector :: "'w connector_controller option"
  config :: config
  readonlyNetwork :: "'w readonly_network option"

text \<open>The data fields of the returned \<open>Web3Ethers\<close> object.\<close>

record 'w web3_ethers =
  connector :: "'w connector_controller option"
  library :: "'w provider option"
  chainId :: "int option"
  account :: "string option"
  active :: bool
  error :: "js_error option"
  view_isLoading :: bool

section \<open>The chain-validity effect (lines 78 to 94)\<close>

text \<open>
  \<open>Object.keys(readOnlyUrls || {}).map((chainId) => parseInt(chainId, 10))\<close>: always an
  array, empty when \<open>readOnlyUrls\<close> is undefined; its entries are the keys as
  \<open>parseInt\<close> reads them.
\<close>

definition configuredChainIds :: "config \<Rightarrow> int option list" where
  "configuredChainIds cfg =
     map fst (case readOnlyUrls cfg of None \<Rightarrow> [] | Some urls \<Rightarrow> urls)"

text \<open>\<open>networks?.map((network) => network.chainId)\<close>: undefined when \<open>networks\<close> is.\<close>

definition supportedChainIds :: "config \<Rightarrow> int list option" where
  "supportedChainIds cfg = map_option (map chain_chainId) (networks cfg)"

text \<open>
  \<open>chainId && configuredChainIds && configuredChainIds.indexOf(chainId) < 0\<close>, as the
  truth value the code tests. A number is truthy unless it is \<open>0\<close>; an array is always
  truthy; \<open>indexOf\<close> compares with \<open>===\<close>, so \<open>NaN\<close> matches nothing.
\<close>

definition isNotConfiguredChainId :: "config \<Rightarrow> int option \<Rightarrow> bool" where
  "isNotConfiguredChainId cfg chainId' =
     (case chainId' of
        None \<Rightarrow> False
      | Some c \<Rightarrow> c \<noteq> 0 \<and> indexOf (configuredChainIds cfg) (Some c) < 0)"

definition isUnsupportedChainId :: "config \<Rightarrow> int option \<Rightarrow> bool" where
  "isUnsupportedChainId cfg chainId' =
     (case chainId' of
        None \<Rightarrow> False
      | Some c \<Rightarrow>
          c \<noteq> 0 \<and>
          (case supportedChainIds cfg of
             None \<Rightarrow> False
           | Some ids \<Rightarrow> indexOf ids c < 0))"

text \<open>
  The error built on lines 86 and 87; the flag says which of the two messages it
  carries.
\<close>

definition chainIdError :: "bool \<Rightarrow> int option \<Rightarrow> js_error" where
  "chainIdError unsupported chainId' =
     Error ''ChainIdError''
       ((if unsupported then ''Unsupported'' else ''Not configured'')
          @ '' chain id: '' @ template_number chainId' @ ''.'')
       None"

text \<open>\<open>errors[errors.length - 1]\<close>: undefined on the empty array.\<close>

definition lastError :: "js_error list \<Rightarrow> js_error option" where
  "lastError es = (if es = [] then None else Some (last es))"

text \<open>The body of the effect; the result is the value it passes to \<open>setError\<close>.\<close>

definition useEthers_effect :: "'w hook_env \<Rightarrow> js_error option" where
  "useEthers_effect env =
     (let chainId' = (case activeConnector env of
                        None \<Rightarrow> None
                      | Some c \<Rightarrow> connector_chainId c);
          notConfigured = isNotConfiguredChainId (config env) chainId';
          unsupported = isUnsupportedChainId (config env) chainId'
      in if unsupported \<or> notConfigured
         then Some (chainIdError unsupported chainId')
         else lastError (errors env))"

text \<open>
  The dependency list of the effect, \<open>[activeConnector?.chainId, errors]\<close> on line 94.
  React runs the effect after the first render, and after a later render only when one of
  the two differs from the render before. The configuration is not among them, though the
  body reads it.
\<close>

definition effect_deps :: "'w hook_env \<Rightarrow> int option \<times> js_error list" where
  "effect_deps env =
     (case activeConnector env of None \<Rightarrow> None | Some c \<Rightarrow> connector_chainId c,
      errors env)"

section \<open>One render (lines 96 to 104, 126 to 154)\<close>

text \<open>
  The provider and chain id the render resolves, from the \<open>error\<close> state it reads.
\<close>

definition resolveProvider ::
  "'w hook_env \<Rightarrow> js_error option \<Rightarrow> 'w provider option \<times> int option" where
  "resolveProvider env err =
     (case activeConnector env of
        None \<Rightarrow>
          (map_option network_provider (readonlyNetwork env),
           map_option network_chainId (readonlyNetwork env))
      | Some c \<Rightarrow>
          (case getProvider c of
             Some p \<Rightarrow> (Some p, if err \<noteq> None then None else connector_chainId c)
           | None \<Rightarrow>
               (map_option network_provider (readonlyNetwork env),
                map_option network_chainId (readonlyNetwork env))))"

text \<open>
  \<open>getAddress\<close> is ethers' checksum normalisation, a parameter here: \<open>Inl\<close> when it
  throws. An exception in the render leaves the hook, so a render is \<open>Inl\<close> of the
  exception or \<open>Inr\<close> of the view. \<open>accounts[0]\<close> is undefined on the empty array, and the
  empty string is falsy.
\<close>

definition resolveAccount ::
  "(string \<Rightarrow> js_error + string) \<Rightarrow> 'w hook_env \<Rightarrow> js_error + string option" where
  "resolveAccount getAddress env =
     (case activeConnector env of
        None \<Rightarrow> Inr None
      | Some c \<Rightarrow>
          (case accounts c of
             [] \<Rightarrow> Inr None
           | a # _ \<Rightarrow>
               if a = [] then Inr None
               else (case getAddress a of
                       Inl e \<Rightarrow> Inl e
                     | Inr checksummed \<Rightarrow> Inr (Some checksummed))))"

definition useEthers ::
  "(string \<Rightarrow> js_error + string) \<Rightarrow> 'w hook_env \<Rightarrow> js_error option
     \<Rightarrow> js_error + 'w web3_ethers" where
  "useEthers getAddress env err =
     (let (provider', chainId') = resolveProvider env err
      in case resolveAccount getAddress env of
           Inl e \<Rightarrow> Inl e
         | Inr account' \<Rightarrow>
             Inr \<lparr> connector = activeConnector env,
                   library = provider',
                   chainId = chainId',
                   account = account',
                   active = (activeConnector env \<noteq> None),
                   error = err,
                   view_isLoading = isLoading env \<rparr>)"

section \<open>switchNetwork (lines 106 to 124)\<close>

text \<open>
  Modelled from the spec: the helper \<open>validateArguments\<close>
  (\<open>helpers/validateArgument\<close>) is not among the sources; only its call
  \<open>validateArguments({ chainId }, { chainId: 'number' })\<close> is. The spec says the input is
  validated to be a number, that a non-numeric chain id fails with an argument-validation
  error, and that \<open>4.5\<close>, a non-integer, is invalid and fails so. The model accepts the
  integer numbers and rejects everything else; on success it gives the chain id.
\<close>

definition validateArguments :: "js_value \<Rightarrow> js_error + int" where
  "validateArguments v =
     (case v of
        JSNumber r \<Rightarrow>
          if r = of_int \<lfloor>r\<rfloor> then Inr \<lfloor>r\<rfloor> else Inl ArgumentValidationError
      | _ \<Rightarrow> Inl ArgumentValidationError)"

text \<open>
  Modelled from the spec: the helper \<open>getAddNetworkParams\<close>
  (\<open>helpers/getAddNetworkParams\<close>) is not among the sources. The spec describes its
  result as one network-parameters object: chain id in hex, name, native currency, RPC
  URLs and block explorer URLs, taken from the configured network.
\<close>

definition getAddNetworkParams :: "chain \<Rightarrow> add_network_params" where
  "getAddNetworkParams c =
     \<lparr> params_chainId = ''0x'' @ Number_toString 16 (chain_chainId c),
       params_chainName = chain_chainName c,
       params_rpcUrls = (case chain_rpcUrl c of None \<Rightarrow> [] | Some u \<Rightarrow> [u]),
       params_blockExplorerUrls =
         (case chain_blockExplorerUrl c of None \<Rightarrow> [] | Some u \<Rightarrow> [u]),
       params_nativeCurrency = chain_nativeCurrency c \<rparr>"

definition notConnected :: js_error where
  "notConnected = Error ''Error'' ''Provider not connected.'' None"

definition switchCall :: "int \<Rightarrow> rpc_call" where
  "switchCall c =
     (''wallet_switchEthereumChain'', SwitchChainParams (''0x'' @ Number_toString 16 c))"

definition addCall :: "chain \<Rightarrow> rpc_call" where
  "addCall ch = (''wallet_addEthereumChain'', AddChainParams (getAddNetworkParams ch))"

text \<open>\<open>chain?.rpcUrl\<close> as a condition: a string is truthy unless it is empty.\<close>

definition has_rpcUrl :: "chain \<Rightarrow> bool" where
  "has_rpcUrl ch = (case chain_rpcUrl ch of None \<Rightarrow> False | Some u \<Rightarrow> u \<noteq> [])"

text \<open>
  The catch block of \<open>switchNetwork\<close>, given the value the switch request threw. The
  add request is awaited inside the catch block, outside any \<open>try\<close>.
\<close>

definition recoverSwitch ::
  "chain list option \<Rightarrow> (string \<Rightarrow> rpc_params \<Rightarrow> 'w \<Rightarrow> (js_error + unit) \<times> 'w)
     \<Rightarrow> int \<Rightarrow> js_error \<Rightarrow> 'w \<Rightarrow> (js_error + unit) \<times> rpc_call list \<times> 'w" where
  "recoverSwitch nets sendf c e w =
     (if err_code e = Some 4902 then
        (case (case nets of
                 None \<Rightarrow> None
               | Some ns \<Rightarrow> find (\<lambda>ch. chain_chainId ch = c) ns) of
           None \<Rightarrow> (Inr (), [], w)
         | Some ch \<Rightarrow>
             if has_rpcUrl ch then
               (case sendf (fst (addCall ch)) (snd (addCall ch)) w of
                  (Inl e2, w2) \<Rightarrow> (Inl e2, [addCall ch], w2)
                | (Inr u, w2) \<Rightarrow> (Inr (), [addCall ch], w2))
             else (Inr (), [], w))
      else (Inr (), [], w))"

text \<open>
  \<open>switchNetwork\<close> closes over the \<open>networks\<close> of the configuration and the provider the
  render resolved. The result is how its promise settles (\<open>Inl\<close>: rejected with that
  value), the requests it sent, in order, and the wallet's state afterwards.
\<close>

definition switchNetwork ::
  "chain list option \<Rightarrow> 'w provider option \<Rightarrow> js_value \<Rightarrow> 'w
     \<Rightarrow> (js_error + unit) \<times> rpc_call list \<times> 'w" where
  "switchNetwork nets provider' arg w =
     (case validateArguments arg of
        Inl e \<Rightarrow> (Inl e, [], w)
      | Inr c \<Rightarrow>
          (case (case provider' of None \<Rightarrow> None | Some p \<Rightarrow> send p) of
             None \<Rightarrow> (Inl notConnected, [], w)
           | Some sendf \<Rightarrow>
               (case sendf (fst (switchCall c)) (snd (switchCall c)) w of
                  (Inr u, w1) \<Rightarrow> (Inr (), [switchCall c], w1)
                | (Inl e, w1) \<Rightarrow>
                    (case recoverSwitch nets sendf c e w1 of
                       (res, calls, w2) \<Rightarrow> (res, switchCall c # calls, w2)))))"

section \<open>Example inputs\<close>

text \<open>Concrete configurations, wallets and renders, used to run the model.\<close>

definition mainnet :: chain where
  "mainnet =
     \<lparr> chain_chainId = 1, chain_chainName = ''Mainnet'',
       chain_rpcUrl = None, chain_blockExplorerUrl = Some ''https://etherscan.io'',
       chain_nativeCurrency = None \<rparr>"

definition polygon :: chain where
  "polygon =
     \<lparr> chain_chainId = 137, chain_chainName = ''Polygon'',
       chain_rpcUrl = Some ''https://polygon-rpc.com'',
       chain_blockExplorerUrl = Some ''https://polygonscan.com'',
       chain_nativeCurrency =
         Some \<lparr> currency_name = ''MATIC'', currency_symbol = ''MATIC'',
                currency_decimals = 18 \<rparr> \<rparr>"

definition example_config :: config where
  "example_config =
     \<lparr> networks = Some [mainnet, polygon],
       readOnlyUrls = Some [(Some 1, ''https://mainnet.example/rpc'')] \<rparr>"

text \<open>The same networks, with a read-only URL for each.\<close>

definition config_with_both_urls :: config where
  "config_with_both_urls =
     \<lparr> networks = Some [mainnet, polygon],
       readOnlyUrls = Some [(Some 1, ''https://mainnet.example/rpc''),
                             (Some 137, ''https://polygon.example/rpc'')] \<rparr>"


text \<open>Two entries for chain 137, the first without an RPC URL.\<close>

definition networks_with_duplicate :: "chain list" where
  "networks_with_duplicate = [polygon \<lparr> chain_rpcUrl := None \<rparr>, polygon]"

definition unrecognizedChain :: js_error where
  "unrecognizedChain = Error ''Error'' ''Unrecognized chain ID.'' (Some 4902)"

definition userRejected :: js_error where
  "userRejected = Error ''Error'' ''User rejected the request.'' (Some 4001)"

text \<open>
  A wallet that does not know the chain asked for: it rejects every switch request with
  code 4902 and answers an add request as given. Its state counts the requests.
\<close>

definition example_wallet :: "js_error + unit \<Rightarrow> nat provider" where
  "example_wallet add_outcome =
     \<lparr> provider_name = ''wallet'',
       send = Some (\<lambda>m ps n.
         if m = ''wallet_switchEthereumChain'' then (Inl unrecognizedChain, Suc n)
         else (add_outcome, Suc n)) \<rparr>"

text \<open>A wallet whose user declines every request, with code 4001.\<close>

definition example_declining_wallet :: "nat provider" where
  "example_declining_wallet =
     \<lparr> provider_name = ''declining wallet'',
       send = Some (\<lambda>m ps n. (Inl userRejected, Suc n)) \<rparr>"

definition example_node :: "nat provider" where
  "example_node =
     \<lparr> provider_name = ''read-only node'', send = Some (\<lambda>m ps n. (Inr (), Suc n)) \<rparr>"

definition example_sendless :: "nat provider" where
  "example_sendless = \<lparr> provider_name = ''legacy provider'', send = None \<rparr>"

text \<open>
  A table standing for \<open>getAddress\<close>: one lower-case address with its checksummed
  form; every other string is refused.
\<close>

definition example_getAddress :: "string \<Rightarrow> js_error + string" where
  "example_getAddress a =
     (if a = ''0x8ba1f109551bd432803012645ac136ddd64dba72''
      then Inr ''0x8ba1f109551bD432803012645Ac136ddd64DBA72''
      else Inl (Error ''Error'' ''invalid address'' None))"

definition example_connector :: "int option \<Rightarrow> nat connector_controller" where
  "example_connector cid =
     \<lparr> connector_chainId = cid,
       accounts = [''0x8ba1f109551bd432803012645ac136ddd64dba72''],
       getProvider = Some (example_wallet (Inr ())) \<rparr>"

definition example_env :: "config \<Rightarrow> int option \<Rightarrow> js_error list \<Rightarrow> nat hook_env" where
  "example_env cfg cid es =
     \<lparr> errors = es, isLoading = False,
       activeConnector = Some (example_connector cid),
       config = cfg,
       readonlyNetwork = Some \<lparr> network_provider = example_node, network_chainId = 1 \<rparr> \<rparr>"

definition disconnected_env :: "nat readonly_network option \<Rightarrow> nat hook_env" where
  "disconnected_env rn =
     \<lparr> errors = [], isLoading = False, activeConnector = None,
       config = example_config, readonlyNetwork = rn \<rparr>"

section \<open>Properties\<close>

subsection \<open>Auxiliary facts\<close>

lemma indexOf_from_neg: "0 \<le> i \<Longrightarrow> (indexOf_from i xs x < 0) = (x \<notin> set xs)"
  by (induction xs arbitrary: i) auto

lemma indexOf_neg: "(indexOf xs x < 0) = (x \<notin> set xs)"
  by (simp add: indexOf_def indexOf_from_neg)

lemma isNotConfiguredChainId_iff:
  "isNotConfiguredChainId cfg (Some c) = (c \<noteq> 0 \<and> Some c \<notin> set (configuredChainIds cfg))"
  by (simp add: isNotConfiguredChainId_def indexOf_neg)

lemma isUnsupportedChainId_iff:
  "isUnsupportedChainId cfg (Some c) =
     (c \<noteq> 0 \<and> (\<exists>ids. supportedChainIds cfg = Some ids \<and> c \<notin> set ids))"
  by (simp add: isUnsupportedChainId_def indexOf_neg split: option.splits)

lemma effect_chainId:
  assumes "activeConnector env = Some c" and "connector_chainId c = Some cid"
  shows "useEthers_effect env =
    (if isUnsupportedChainId (config env) (Some cid)
        \<or> isNotConfiguredChainId (config env) (Some cid)
     then Some (chainIdError (isUnsupportedChainId (config env) (Some cid)) (Some cid))
     else lastError (errors env))"
  using assms by (simp add: useEthers_effect_def Let_def)

lemma effect_chainId_zero:
  assumes "activeConnector env = Some c" and "connector_chainId c = Some 0"
  shows "useEthers_effect env = lastError (errors env)"
  by (simp add: effect_chainId [OF assms] isUnsupportedChainId_iff isNotConfiguredChainId_iff)


lemma chainIdError_137: "chainIdError False (Some 137) =
    Error ''ChainIdError'' ''Not configured chain id: 137.'' None"
  by (simp add: chainIdError_def template_number_def Number_toString_def
      nat_toString.simps digit_char_def)


lemma useEthers_error: "useEthers ga env err = Inr v \<Longrightarrow> error v = err"
  by (auto simp: useEthers_def split: prod.splits sum.splits)

lemma useEthers_resolved:
  "useEthers ga env err = Inr v \<Longrightarrow> (library v, chainId v) = resolveProvider env err"
  by (auto simp: useEthers_def split: prod.splits sum.splits)

lemma useEthers_resolveAccount:
  "useEthers ga env err = Inr v \<Longrightarrow> resolveAccount ga env = Inr (account v)"
  by (auto simp: useEthers_def split: prod.splits sum.splits)

text \<open>A render returns a view unless \<open>getAddress\<close> throws on the first account.\<close>

lemma useEthers_returns:
  "resolveAccount ga env = Inr a \<Longrightarrow> \<exists>v. useEthers ga env err = Inr v"
  by (auto simp: useEthers_def split: prod.splits sum.splits)

lemma useEthers_empty_first_account:
  assumes "useEthers ga env err = Inr v"
    and "activeConnector env = Some c" and "accounts c = [] # rest"
  shows "account v = None"
  using useEthers_resolveAccount [OF assms(1)] assms(2,3)
  by (simp add: resolveAccount_def)

lemma example_env_account:
  "resolveAccount example_getAddress (example_env cfg cid es) =
     Inr (Some ''0x8ba1f109551bD432803012645Ac136ddd64DBA72'')"
  by (simp add: resolveAccount_def example_env_def example_connector_def
      example_getAddress_def)

lemma example_env_returns:
  "\<exists>v. useEthers example_getAddress (example_env cfg cid es) err = Inr v"
  using example_env_account by (rule useEthers_returns)

lemma example_env_connector:
  "activeConnector (example_env cfg cid es) = Some (example_connector cid)"
  "connector_chainId (example_connector cid) = cid"
  "getProvider (example_connector cid) = Some (example_wallet (Inr ()))"
  "config (example_env cfg cid es) = cfg"
  "errors (example_env cfg cid es) = es"
  by (simp_all add: example_env_def example_connector_def)

lemma example_config_ids:
  "supportedChainIds example_config = Some [1, 137]"
  "configuredChainIds example_config = [Some 1]"
  by (simp_all add: supportedChainIds_def configuredChainIds_def example_config_def
      mainnet_def polygon_def)

lemma validateArguments_Inr:
  "validateArguments arg = Inr c \<Longrightarrow> arg = JSNumber (of_int c)"
  by (auto simp: validateArguments_def split: js_value.splits if_splits)

lemma validateArguments_of_int: "validateArguments (JSNumber (of_int c)) = Inr c"
  by (simp add: validateArguments_def)

lemma validateArguments_137: "validateArguments (JSNumber 137) = Inr 137"
  using validateArguments_of_int [of 137] by simp

lemma hex_137: "Number_toString 16 137 = ''89''"
  by (simp add: Number_toString_def nat_toString.simps digit_char_def)

text \<open>
  When the switch request is rejected, the promise settles as the catch block does, and
  the requests are the switch request followed by those of the catch block.
\<close>

lemma switchNetwork_rejected_switch:
  assumes "validateArguments arg = Inr c" and "provider' = Some p" and "send p = Some sendf"
    and "sendf ''wallet_switchEthereumChain''
           (SwitchChainParams (''0x'' @ Number_toString 16 c)) w = (Inl e, w1)"
  shows "switchNetwork nets provider' arg w =
          (fst (recoverSwitch nets sendf c e w1),
           switchCall c # fst (snd (recoverSwitch nets sendf c e w1)),
           snd (snd (recoverSwitch nets sendf c e w1)))"
  using assms by (simp add: switchNetwork_def switchCall_def split: prod.splits)

lemma non_integer_number: "JSNumber (9 / 2) \<noteq> JSNumber (of_int i)"
proof
  assume "JSNumber (9 / 2) = JSNumber (of_int i)"
  then have "(of_int i :: rat) * 2 = 9" by simp
  then have "(of_int (i * 2) :: rat) = of_int 9" by simp
  then have "i * 2 = 9" by (simp only: of_int_eq_iff)
  then show False by presburger
qed

lemma find_polygon: "find (\<lambda>ch. chain_chainId ch = 137) [mainnet, polygon] = Some polygon"
  by (simp add: mainnet_def polygon_def)

lemma has_rpcUrl_polygon: "has_rpcUrl polygon"
  by (simp add: has_rpcUrl_def polygon_def)

lemma addCall_polygon:
  "addCall polygon =
     (''wallet_addEthereumChain'',
      AddChainParams
        \<lparr> params_chainId = ''0x89'', params_chainName = ''Polygon'',
          params_rpcUrls = [''https://polygon-rpc.com''],
          params_blockExplorerUrls = [''https://polygonscan.com''],
          params_nativeCurrency =
            Some \<lparr> currency_name = ''MATIC'', currency_symbol = ''MATIC'',
                   currency_decimals = 18 \<rparr> \<rparr>)"
  by (simp add: addCall_def getAddNetworkParams_def polygon_def hex_137)

lemma recoverSwitch_add:
  assumes "err_code e = Some 4902"
    and "nets = Some ns" and "find (\<lambda>ch. chain_chainId ch = c) ns = Some ch"
    and "has_rpcUrl ch"
    and "sendf ''wallet_addEthereumChain'' (AddChainParams (getAddNetworkParams ch)) w1
           = (out, w2)"
  shows "recoverSwitch nets sendf c e w1 =
           (case out of Inl e2 \<Rightarrow> Inl e2 | Inr u \<Rightarrow> Inr (), [addCall ch], w2)"
  using assms by (simp add: recoverSwitch_def addCall_def split: sum.splits)

lemma example_wallet_switch:
  "send (example_wallet out) = Some sendf \<Longrightarrow>
     sendf ''wallet_switchEthereumChain'' ps n = (Inl unrecognizedChain, Suc n)"
  by (auto simp: example_wallet_def)

lemma example_wallet_add:
  "send (example_wallet out) = Some sendf \<Longrightarrow>
     sendf ''wallet_addEthereumChain'' ps n = (out, Suc n)"
  by (auto simp: example_wallet_def)

lemma example_wallet_has_send: "\<exists>sendf. send (example_wallet out) = Some sendf"
  by (simp add: example_wallet_def)

lemma err_code_unrecognizedChain: "err_code unrecognizedChain = Some 4902"
  by (simp add: unrecognizedChain_def)

subsection \<open>The view of one render\<close>

text \<open>
  Claim C4. In a render where the active connector has a provider, the view carries that
  provider and the \<open>error\<close> state as it is; when the error is set the view's
  \<open>chainId\<close> is undefined, and when it is unset the view's \<open>chainId\<close> is the
  connector's chain id.
\<close>

theorem useEthers_chainId_masked_by_error:
  assumes "activeConnector env = Some c" and "getProvider c = Some p"
    and "useEthers ga env err = Inr v"
  shows "library v = Some p \<and> error v = err
       \<and> (error v \<noteq> None \<longrightarrow> chainId v = None)
       \<and> (error v = None \<longrightarrow> chainId v = connector_chainId c)"
  using useEthers_resolved [OF assms(3)] useEthers_error [OF assms(3)] assms(1,2)
  by (auto simp: resolveProvider_def)

theorem useEthers_chainId_masked_by_error_witness:
  "(\<exists>v. useEthers example_getAddress (example_env example_config (Some 137) [])
           (Some userRejected) = Inr v
        \<and> library v = Some (example_wallet (Inr ()))
        \<and> error v = Some userRejected \<and> chainId v = None)
 \<and> (\<exists>v. useEthers example_getAddress (example_env example_config (Some 137) []) None = Inr v
        \<and> library v = Some (example_wallet (Inr ()))
        \<and> error v = None \<and> chainId v = Some 137)"
proof -
  let ?env = "example_env example_config (Some 137) []"
  obtain v1 where v1: "useEthers example_getAddress ?env (Some userRejected) = Inr v1"
    using example_env_returns by blast
  obtain v2 where v2: "useEthers example_getAddress ?env None = Inr v2"
    using example_env_returns by blast
  have "library v1 = Some (example_wallet (Inr ())) \<and> error v1 = Some userRejected
      \<and> chainId v1 = None"
    using useEthers_chainId_masked_by_error
      [OF example_env_connector(1) example_env_connector(3) v1]
    by simp
  moreover have "library v2 = Some (example_wallet (Inr ())) \<and> error v2 = None
      \<and> chainId v2 = Some 137"
    using useEthers_chainId_masked_by_error
      [OF example_env_connector(1) example_env_connector(3) v2]
    by (simp add: example_env_connector)
  ultimately show ?thesis using v1 v2 by blast
qed

text \<open>
  Claim C5. In a render with no active connector, or with an active connector that has
  no provider, the view's provider and chain id are those of the read-only network, and
  both are undefined when there is no read-only network.
\<close>

theorem useEthers_readonly_fallback:
  assumes "activeConnector env = None
         \<or> (\<exists>c. activeConnector env = Some c \<and> getProvider c = None)"
    and "useEthers ga env err = Inr v"
  shows "library v = map_option network_provider (readonlyNetwork env)
       \<and> chainId v = map_option network_chainId (readonlyNetwork env)
       \<and> (readonlyNetwork env = None \<longrightarrow> library v = None \<and> chainId v = None)"
  using useEthers_resolved [OF assms(2)] assms(1)
  by (auto simp: resolveProvider_def)

theorem useEthers_readonly_fallback_witness:
  "(\<exists>v. useEthers example_getAddress
           (disconnected_env (Some \<lparr> network_provider = example_node, network_chainId = 1 \<rparr>))
           None = Inr v
        \<and> library v = Some example_node \<and> chainId v = Some 1)
 \<and> (\<exists>v. useEthers example_getAddress (disconnected_env None) None = Inr v
        \<and> library v = None \<and> chainId v = None)"
proof -
  let ?rn = "Some \<lparr> network_provider = example_node, network_chainId = 1 \<rparr>"
  have acc: "resolveAccount example_getAddress (disconnected_env rn) = Inr None" for rn
    by (simp add: resolveAccount_def disconnected_env_def)
  have none: "activeConnector (disconnected_env rn) = None
      \<or> (\<exists>c. activeConnector (disconnected_env rn) = Some c \<and> getProvider c = None)" for rn
    by (simp add: disconnected_env_def)
  obtain v1 where v1: "useEthers example_getAddress (disconnected_env ?rn) None = Inr v1"
    using useEthers_returns [OF acc] by blast
  obtain v2 where v2: "useEthers example_getAddress (disconnected_env None) None = Inr v2"
    using useEthers_returns [OF acc] by blast
  have "library v1 = Some example_node \<and> chainId v1 = Some 1"
    using useEthers_readonly_fallback [OF none v1] by (simp add: disconnected_env_def)
  moreover have "library v2 = None \<and> chainId v2 = None"
    using useEthers_readonly_fallback [OF none v2] by (simp add: disconnected_env_def)
  ultimately show ?thesis using v1 v2 by blast
qed

text \<open>
  Claim C8. The view's account is undefined when there is no active connector or its
  accounts are empty; otherwise it is what \<open>getAddress\<close>, the checksum normalisation,
  returns for the first entry of the accounts. (A first entry that is the empty string
  is no address; the code gives no account for it.)
\<close>

theorem useEthers_account_checksummed:
  assumes "useEthers ga env err = Inr v"
  shows "(activeConnector env = None \<longrightarrow> account v = None)
       \<and> (\<forall>c. activeConnector env = Some c \<longrightarrow> accounts c = [] \<longrightarrow> account v = None)
       \<and> (\<forall>c a rest. activeConnector env = Some c \<longrightarrow> accounts c = a # rest \<longrightarrow> a \<noteq> [] \<longrightarrow>
            (\<exists>checksummed. ga a = Inr checksummed \<and> account v = Some checksummed))"
  using useEthers_resolveAccount [OF assms]
  by (auto simp: resolveAccount_def split: sum.splits)

theorem useEthers_account_checksummed_witness:
  "(\<exists>v. useEthers example_getAddress (example_env example_config (Some 1) []) None = Inr v
        \<and> account v = Some ''0x8ba1f109551bD432803012645Ac136ddd64DBA72'')
 \<and> (\<exists>v. useEthers example_getAddress (disconnected_env None) None = Inr v
        \<and> account v = None)"
proof -
  let ?env = "example_env example_config (Some 1) []"
  obtain v1 where v1: "useEthers example_getAddress ?env None = Inr v1"
    using example_env_returns by blast
  have "resolveAccount example_getAddress (disconnected_env None) = Inr None"
    by (simp add: resolveAccount_def disconnected_env_def)
  then obtain v2 where v2: "useEthers example_getAddress (disconnected_env None) None = Inr v2"
    using useEthers_returns by blast
  have "account v1 = Some ''0x8ba1f109551bD432803012645Ac136ddd64DBA72''"
    using useEthers_account_checksummed [OF v1]
    by (simp add: example_env_def example_connector_def example_getAddress_def)
  moreover have "account v2 = None"
    using useEthers_account_checksummed [OF v2] by (simp add: disconnected_env_def)
  ultimately show ?thesis using v1 v2 by blast
qed

subsection \<open>The chain-validity effect and the error of the view\<close>

text \<open>
  The effect runs after a render, on the inputs of that render, and stores its result
  in the \<open>error\<close> state; the renders that follow read the stored value until the effect
  runs again. With \<open>env\<close> the inputs of the run and \<open>env'\<close> those of a render that reads
  its result, the view of that render is
  \<open>useEthers getAddress env' (useEthers_effect env)\<close>. In the render the run itself
  schedules, the two are the same.
\<close>

text \<open>
  Claim C10. When the active connector's chain id is \<open>0\<close>, neither chain-id condition
  holds, whatever the configuration: no chain-id error is built, the effect stores the
  last externally reported error, and that is the error of the view.
\<close>

theorem zero_chainId_no_chain_error:
  assumes "activeConnector env = Some c" and "connector_chainId c = Some 0"
  shows "\<not> isUnsupportedChainId (config env) (Some 0)
       \<and> \<not> isNotConfiguredChainId (config env) (Some 0)
       \<and> useEthers_effect env = lastError (errors env)
       \<and> (\<forall>v. useEthers ga env (useEthers_effect env) = Inr v \<longrightarrow>
             error v = lastError (errors env))"
proof -
  have u: "\<not> isUnsupportedChainId (config env) (Some 0)"
    by (simp add: isUnsupportedChainId_iff)
  have n: "\<not> isNotConfiguredChainId (config env) (Some 0)"
    by (simp add: isNotConfiguredChainId_iff)
  have e: "useEthers_effect env = lastError (errors env)"
    using assms by (rule effect_chainId_zero)
  show ?thesis using u n e by (auto dest: useEthers_error)
qed

theorem zero_chainId_no_chain_error_witness:
  "supportedChainIds example_config = Some [1, 137]
 \<and> configuredChainIds example_config = [Some 1]
 \<and> useEthers_effect (example_env example_config (Some 0) [unrecognizedChain, userRejected])
     = Some userRejected
 \<and> (\<exists>v. useEthers example_getAddress
           (example_env example_config (Some 0) [unrecognizedChain, userRejected])
           (useEthers_effect
              (example_env example_config (Some 0) [unrecognizedChain, userRejected])) = Inr v
        \<and> error v = Some userRejected)"
proof -
  let ?env = "example_env example_config (Some 0) [unrecognizedChain, userRejected]"
  note z = zero_chainId_no_chain_error
    [OF example_env_connector(1) example_env_connector(2), of example_config
      "[unrecognizedChain, userRejected]" example_getAddress]
  have l: "lastError (errors ?env) = Some userRejected"
    by (simp add: example_env_connector lastError_def)
  have e: "useEthers_effect ?env = Some userRejected"
    using z l by simp
  obtain v where v: "useEthers example_getAddress ?env (useEthers_effect ?env) = Inr v"
    using example_env_returns by blast
  have "error v = lastError (errors ?env)"
    using z v by blast
  then have "error v = Some userRejected"
    using l by simp
  then show ?thesis using e v example_config_ids by blast
qed


text \<open>
  After a change of the configuration alone, the dependencies of the effect are what
  they were, so the effect is not run again and the view keeps the error the earlier run
  stored. Here chain 137 had no read-only URL when the effect ran and has one in the
  render: it is in both sets, a run of the effect would store no error, and the view
  still has the "Not configured" error and no chain id.
\<close>

theorem stale_error_after_config_change:
  "effect_deps (example_env config_with_both_urls (Some 137) [])
     = effect_deps (example_env example_config (Some 137) [])
 \<and> supportedChainIds config_with_both_urls = Some [1, 137]
 \<and> configuredChainIds config_with_both_urls = [Some 1, Some 137]
 \<and> useEthers_effect (example_env config_with_both_urls (Some 137) []) = None
 \<and> (\<exists>v. useEthers example_getAddress (example_env config_with_both_urls (Some 137) [])
           (useEthers_effect (example_env example_config (Some 137) [])) = Inr v
        \<and> error v = Some (Error ''ChainIdError'' ''Not configured chain id: 137.'' None)
        \<and> chainId v = None)"
proof -
  let ?run = "example_env example_config (Some 137) []"
  let ?render = "example_env config_with_both_urls (Some 137) []"
  have deps: "effect_deps ?render = effect_deps ?run"
    by (simp add: effect_deps_def example_env_connector)
  have ids: "supportedChainIds config_with_both_urls = Some [1, 137]"
    "configuredChainIds config_with_both_urls = [Some 1, Some 137]"
    by (simp_all add: supportedChainIds_def configuredChainIds_def config_with_both_urls_def
        mainnet_def polygon_def)
  have fresh: "useEthers_effect ?render = None"
    by (simp add: effect_chainId [OF example_env_connector(1) example_env_connector(2)]
        example_env_connector isUnsupportedChainId_iff isNotConfiguredChainId_iff ids
        lastError_def)
  have stored: "useEthers_effect ?run = Some (chainIdError False (Some 137))"
    by (simp add: effect_chainId [OF example_env_connector(1) example_env_connector(2)]
        example_env_connector isUnsupportedChainId_iff isNotConfiguredChainId_iff
        example_config_ids)
  obtain v where v: "useEthers example_getAddress ?render (useEthers_effect ?run) = Inr v"
    using example_env_returns by blast
  have e: "error v = Some (Error ''ChainIdError'' ''Not configured chain id: 137.'' None)"
    using useEthers_error [OF v] stored by (simp add: chainIdError_137)
  have "(library v, chainId v) = resolveProvider ?render (useEthers_effect ?run)"
    using v by (rule useEthers_resolved)
  then have c: "chainId v = None"
    using stored by (simp add: resolveProvider_def example_env_connector)
  show ?thesis using deps ids fresh v e c by blast
qed






subsection \<open>switchNetwork\<close>

text \<open>
  Claim C6. For every argument that is not an integer number (a value that is not a
  number, or a number such as \<open>4.5\<close>), \<open>switchNetwork\<close> is rejected with the
  argument-validation error, sends no request and leaves the wallet as it was.
\<close>

theorem switchNetwork_invalid_argument:
  assumes "\<forall>i. arg \<noteq> JSNumber (of_int i)"
  shows "switchNetwork nets provider' arg w = (Inl ArgumentValidationError, [], w)"
proof -
  have "validateArguments arg = Inl ArgumentValidationError"
  proof (cases "validateArguments arg")
    case (Inl e)
    then show ?thesis
      by (auto simp: validateArguments_def split: js_value.splits if_splits)
  next
    case (Inr c)
    then show ?thesis using assms validateArguments_Inr by blast
  qed
  then show ?thesis by (simp add: switchNetwork_def)
qed

theorem switchNetwork_invalid_argument_witness:
  "switchNetwork (Some [mainnet, polygon]) (Some (example_wallet (Inr ()))) (JSNumber (9 / 2)) 0
     = (Inl ArgumentValidationError, [], 0)
 \<and> switchNetwork (Some [mainnet, polygon]) (Some (example_wallet (Inr ()))) (JSString ''137'') 0
     = (Inl ArgumentValidationError, [], 0)"
proof -
  have a: "\<forall>i. JSNumber (9 / 2) \<noteq> JSNumber (of_int i)"
    using non_integer_number by blast
  have b: "\<forall>i. JSString ''137'' \<noteq> JSNumber (of_int i)"
    by simp
  show ?thesis
    by (intro conjI switchNetwork_invalid_argument [OF a]
        switchNetwork_invalid_argument [OF b])
qed

text \<open>
  Claim C7. For a valid chain id, when there is no provider or the provider has no
  \<open>send\<close>, \<open>switchNetwork\<close> is rejected with the error "Provider not connected.", sends
  no request and leaves the wallet as it was.
\<close>

theorem switchNetwork_not_connected:
  assumes "validateArguments arg = Inr c"
    and "provider' = None \<or> (\<exists>p. provider' = Some p \<and> send p = None)"
  shows "switchNetwork nets provider' arg w = (Inl notConnected, [], w)"
  using assms by (auto simp: switchNetwork_def)

theorem switchNetwork_not_connected_witness:
  "switchNetwork (Some [mainnet, polygon]) None (JSNumber 137) (0 :: nat)
     = (Inl (Error ''Error'' ''Provider not connected.'' None), [], 0)
 \<and> switchNetwork (Some [mainnet, polygon]) (Some example_sendless) (JSNumber 137) 0
     = (Inl (Error ''Error'' ''Provider not connected.'' None), [], 0)"
proof -
  have a: "(None :: nat provider option) = None \<or> (\<exists>p. None = Some p \<and> send p = None)"
    by simp
  have b: "Some example_sendless = None
      \<or> (\<exists>p. Some example_sendless = Some p \<and> send p = None)"
    by (simp add: example_sendless_def)
  show ?thesis
    using switchNetwork_not_connected [OF validateArguments_137 a]
      switchNetwork_not_connected [OF validateArguments_137 b]
    by (simp add: notConnected_def)
qed

text \<open>
  Claim C2, as stated, fails when the networks hold two entries for the chain id and only
  the second has an RPC URL: \<open>find\<close> takes the first, and the switch request is the only
  one sent.
\<close>

theorem switchNetwork_duplicate_entry_counterexample:
  "validateArguments (JSNumber 137) = Inr 137
 \<and> (\<exists>sendf e w1. send (example_wallet (Inr ())) = Some sendf
        \<and> sendf ''wallet_switchEthereumChain'' (SwitchChainParams ''0x89'') 0 = (Inl e, w1)
        \<and> err_code e = Some 4902)
 \<and> (\<exists>ch \<in> set networks_with_duplicate. chain_chainId ch = 137 \<and> has_rpcUrl ch)
 \<and> fst (snd (switchNetwork (Some networks_with_duplicate)
               (Some (example_wallet (Inr ()))) (JSNumber 137) 0))
     = [(''wallet_switchEthereumChain'', SwitchChainParams ''0x89'')]"
proof -
  obtain sendf where s: "send (example_wallet (Inr ())) = Some sendf"
    using example_wallet_has_send by blast
  have sw: "sendf ''wallet_switchEthereumChain'' ps 0 = (Inl unrecognizedChain, Suc 0)" for ps
    using s by (rule example_wallet_switch)
  have first: "find (\<lambda>ch. chain_chainId ch = 137) networks_with_duplicate
      = Some (polygon \<lparr> chain_rpcUrl := None \<rparr>)"
    by (simp add: networks_with_duplicate_def polygon_def)
  have rec: "recoverSwitch (Some networks_with_duplicate) sendf 137 unrecognizedChain (Suc 0)
      = (Inr (), [], Suc 0)"
    by (simp add: recoverSwitch_def first has_rpcUrl_def err_code_unrecognizedChain)
  have calls: "fst (snd (switchNetwork (Some networks_with_duplicate)
      (Some (example_wallet (Inr ()))) (JSNumber 137) 0)) = [switchCall 137]"
    using switchNetwork_rejected_switch [OF validateArguments_137 refl s sw] rec by simp
  have ex: "\<exists>ch \<in> set networks_with_duplicate. chain_chainId ch = 137 \<and> has_rpcUrl ch"
    using has_rpcUrl_polygon by (auto simp: networks_with_duplicate_def polygon_def)
  show ?thesis
    using s sw [of "SwitchChainParams ''0x89''"] calls ex validateArguments_137
    by (simp add: switchCall_def hex_137 err_code_unrecognizedChain)
qed

text \<open>
  Claim C2, amended. When the switch request is rejected with code 4902 and the first
  entry of the configured networks with that chain id has a non-empty RPC URL,
  \<open>switchNetwork\<close> sends exactly two requests: \<open>wallet_switchEthereumChain\<close> with the
  chain id in hex after \<open>0x\<close>, then \<open>wallet_addEthereumChain\<close> with the parameters built
  from that entry.
\<close>

theorem switchNetwork_adds_first_configured_chain:
  assumes "validateArguments arg = Inr c" and "provider' = Some p" and "send p = Some sendf"
    and "sendf ''wallet_switchEthereumChain''
           (SwitchChainParams (''0x'' @ Number_toString 16 c)) w = (Inl e, w1)"
    and "err_code e = Some 4902"
    and "nets = Some ns" and "find (\<lambda>ch. chain_chainId ch = c) ns = Some ch"
    and "has_rpcUrl ch"
  shows "fst (snd (switchNetwork nets provider' arg w)) =
           [(''wallet_switchEthereumChain'', SwitchChainParams (''0x'' @ Number_toString 16 c)),
            (''wallet_addEthereumChain'', AddChainParams (getAddNetworkParams ch))]"
  unfolding switchNetwork_rejected_switch [OF assms(1-4)]
  using assms(5-8)
  by (simp add: recoverSwitch_def switchCall_def addCall_def split: prod.splits sum.splits)

theorem switchNetwork_adds_first_configured_chain_witness:
  "fst (snd (switchNetwork (Some [mainnet, polygon]) (Some (example_wallet (Inr ())))
               (JSNumber 137) 0))
     = [(''wallet_switchEthereumChain'', SwitchChainParams ''0x89''),
        (''wallet_addEthereumChain'',
         AddChainParams
           \<lparr> params_chainId = ''0x89'', params_chainName = ''Polygon'',
             params_rpcUrls = [''https://polygon-rpc.com''],
             params_blockExplorerUrls = [''https://polygonscan.com''],
             params_nativeCurrency =
               Some \<lparr> currency_name = ''MATIC'', currency_symbol = ''MATIC'',
                      currency_decimals = 18 \<rparr> \<rparr>)]"
proof -
  obtain sendf where s: "send (example_wallet (Inr ())) = Some sendf"
    using example_wallet_has_send by blast
  have sw: "sendf ''wallet_switchEthereumChain''
      (SwitchChainParams (''0x'' @ Number_toString 16 137)) 0 = (Inl unrecognizedChain, Suc 0)"
    using s by (rule example_wallet_switch)
  show ?thesis
    using switchNetwork_adds_first_configured_chain
      [OF validateArguments_137 refl s sw err_code_unrecognizedChain refl find_polygon
        has_rpcUrl_polygon]
      addCall_polygon
    by (simp add: hex_137 addCall_def)
qed

text \<open>
  Claim C3, as stated, fails: when the wallet rejects the add request, the promise of
  \<open>switchNetwork\<close> is rejected with that very error.
\<close>

theorem switchNetwork_add_failure_surfaced_counterexample:
  "(\<exists>sendf. send (example_wallet (Inl userRejected)) = Some sendf
        \<and> sendf ''wallet_addEthereumChain'' (snd (addCall polygon)) (Suc 0)
            = (Inl userRejected, Suc (Suc 0)))
 \<and> switchNetwork (Some [mainnet, polygon]) (Some (example_wallet (Inl userRejected)))
       (JSNumber 137) 0
     = (Inl userRejected, [switchCall 137, addCall polygon], Suc (Suc 0))"
proof -
  obtain sendf where s: "send (example_wallet (Inl userRejected)) = Some sendf"
    using example_wallet_has_send by blast
  have sw: "sendf ''wallet_switchEthereumChain'' ps 0 = (Inl unrecognizedChain, Suc 0)" for ps
    using s by (rule example_wallet_switch)
  have ad: "sendf ''wallet_addEthereumChain'' ps (Suc 0) = (Inl userRejected, Suc (Suc 0))" for ps
    using s by (rule example_wallet_add)
  have rec: "recoverSwitch (Some [mainnet, polygon]) sendf 137 unrecognizedChain (Suc 0)
      = (Inl userRejected, [addCall polygon], Suc (Suc 0))"
    using recoverSwitch_add
      [where sendf = sendf, OF err_code_unrecognizedChain refl find_polygon
        has_rpcUrl_polygon ad [of "AddChainParams (getAddNetworkParams polygon)"]]
    by simp
  have "switchNetwork (Some [mainnet, polygon]) (Some (example_wallet (Inl userRejected)))
      (JSNumber 137) 0 = (Inl userRejected, [switchCall 137, addCall polygon], Suc (Suc 0))"
    using switchNetwork_rejected_switch [OF validateArguments_137 refl s sw] rec by simp
  then show ?thesis using s ad by blast
qed

text \<open>
  Claim C3, amended. When the add request sent in recovery is itself rejected, the
  promise of \<open>switchNetwork\<close> is rejected with the value the add request threw, after
  exactly the two requests.
\<close>

theorem switchNetwork_add_failure_rejects:
  assumes "validateArguments arg = Inr c" and "provider' = Some p" and "send p = Some sendf"
    and "sendf ''wallet_switchEthereumChain''
           (SwitchChainParams (''0x'' @ Number_toString 16 c)) w = (Inl e, w1)"
    and "err_code e = Some 4902"
    and "nets = Some ns" and "find (\<lambda>ch. chain_chainId ch = c) ns = Some ch"
    and "has_rpcUrl ch"
    and "sendf ''wallet_addEthereumChain'' (AddChainParams (getAddNetworkParams ch)) w1
           = (Inl e2, w2)"
  shows "switchNetwork nets provider' arg w = (Inl e2, [switchCall c, addCall ch], w2)"
  unfolding switchNetwork_rejected_switch [OF assms(1-4)]
  using assms(5-9)
  by (simp add: recoverSwitch_def addCall_def split: prod.splits sum.splits)

theorem switchNetwork_add_failure_rejects_witness:
  "fst (switchNetwork (Some [mainnet, polygon]) (Some (example_wallet (Inl userRejected)))
          (JSNumber 137) 5)
     = Inl (Error ''Error'' ''User rejected the request.'' (Some 4001))"
proof -
  obtain sendf where s: "send (example_wallet (Inl userRejected)) = Some sendf"
    using example_wallet_has_send by blast
  have sw: "sendf ''wallet_switchEthereumChain''
      (SwitchChainParams (''0x'' @ Number_toString 16 137)) 5 = (Inl unrecognizedChain, Suc 5)"
    using s by (rule example_wallet_switch)
  have ad: "sendf ''wallet_addEthereumChain'' (AddChainParams (getAddNetworkParams polygon))
      (Suc 5) = (Inl userRejected, Suc (Suc 5))"
    using s by (rule example_wallet_add)
  show ?thesis
    using switchNetwork_add_failure_rejects
      [OF validateArguments_137 refl s sw err_code_unrecognizedChain refl find_polygon
        has_rpcUrl_polygon ad]
    by (simp add: userRejected_def)
qed

text \<open>
  A switch request that is rejected with any code other than 4902, or with none, is
  swallowed by the catch block: the promise of \<open>switchNetwork\<close> is fulfilled after that
  one request.
\<close>

theorem switchNetwork_switch_rejection_swallowed:
  assumes "validateArguments arg = Inr c" and "provider' = Some p" and "send p = Some sendf"
    and "sendf ''wallet_switchEthereumChain''
           (SwitchChainParams (''0x'' @ Number_toString 16 c)) w = (Inl e, w1)"
    and "err_code e \<noteq> Some 4902"
  shows "switchNetwork nets provider' arg w = (Inr (), [switchCall c], w1)"
  unfolding switchNetwork_rejected_switch [OF assms(1-4)]
  using assms(5) by (simp add: recoverSwitch_def)

theorem switchNetwork_switch_rejection_swallowed_witness:
  "switchNetwork (Some [mainnet, polygon]) (Some example_declining_wallet) (JSNumber 137) 0
     = (Inr (), [(''wallet_switchEthereumChain'', SwitchChainParams ''0x89'')], Suc 0)"
proof -
  have s: "send example_declining_wallet = Some (\<lambda>m ps n. (Inl userRejected, Suc n))"
    by (simp add: example_declining_wallet_def)
  have c: "err_code userRejected \<noteq> Some 4902"
    by (simp add: userRejected_def)
  show ?thesis
    using switchNetwork_switch_rejection_swallowed
      [OF validateArguments_137 refl s _ c, of 0 "Suc 0" "Some [mainnet, polygon]"]
    by (simp add: switchCall_def hex_137)
qed

text \<open>
  When the wallet accepts the switch request, the promise of \<open>switchNetwork\<close> is
  fulfilled after that one request.
\<close>

theorem switchNetwork_accepted:
  assumes "validateArguments arg = Inr c" and "provider' = Some p" and "send p = Some sendf"
    and "sendf ''wallet_switchEthereumChain''
           (SwitchChainParams (''0x'' @ Number_toString 16 c)) w = (Inr u, w1)"
  shows "switchNetwork nets provider' arg w = (Inr (), [switchCall c], w1)"
  using assms by (simp add: switchNetwork_def switchCall_def)

theorem switchNetwork_accepted_witness:
  "switchNetwork (Some [mainnet, polygon]) (Some example_node) (JSNumber 137) 0
     = (Inr (), [(''wallet_switchEthereumChain'', SwitchChainParams ''0x89'')], Suc 0)"
proof -
  have s: "send example_node = Some (\<lambda>m ps n. (Inr (), Suc n))"
    by (simp add: example_node_def)
  show ?thesis
    using switchNetwork_accepted
      [OF validateArguments_137 refl s, of 0 "()" "Suc 0" "Some [mainnet, polygon]"]
    by (simp add: switchCall_def hex_137)
qed

end
